theory Spec2Isabelle
  imports Complex_Main
begin

section \<open>JavaScript numbers\<close>

text \<open>
  A JavaScript number is modelled by its mathematical value: a finite value is a real number,
  and the three special values are kept apart. Rounding to the nearest double, the range of
  doubles and the sign of zero are not modelled.
\<close>

datatype jsnum = Num real | PosInf | NegInf | NaN

fun js_neg :: "jsnum \<Rightarrow> jsnum" where
  "js_neg (Num a) = Num (- a)"
| "js_neg PosInf = NegInf"
| "js_neg NegInf = PosInf"
| "js_neg NaN = NaN"

fun js_add :: "jsnum \<Rightarrow> jsnum \<Rightarrow> jsnum" where
  "js_add (Num a) (Num b) = Num (a + b)"
| "js_add NaN y = NaN"
| "js_add x NaN = NaN"
| "js_add PosInf NegInf = NaN"
| "js_add NegInf PosInf = NaN"
| "js_add PosInf y = PosInf"
| "js_add NegInf y = NegInf"
| "js_add x PosInf = PosInf"
| "js_add x NegInf = NegInf"

definition js_sub :: "jsnum \<Rightarrow> jsnum \<Rightarrow> jsnum" where
  "js_sub x y = js_add x (js_neg y)"

text \<open>The sign of a value that is not NaN: \<open>1\<close>, \<open>0\<close> or \<open>-1\<close>.\<close>

fun js_sign :: "jsnum \<Rightarrow> int" where
  "js_sign (Num a) = (if a = 0 then 0 else if 0 < a then 1 else - 1)"
| "js_sign PosInf = 1"
| "js_sign NegInf = - 1"
| "js_sign NaN = 0"

definition js_inf :: "int \<Rightarrow> jsnum" where
  "js_inf s = (if s = 0 then NaN else if 0 < s then PosInf else NegInf)"

fun js_mul :: "jsnum \<Rightarrow> jsnum \<Rightarrow> jsnum" where
  "js_mul (Num a) (Num b) = Num (a * b)"
| "js_mul NaN y = NaN"
| "js_mul x NaN = NaN"
| "js_mul x y = js_inf (js_sign x * js_sign y)"

text \<open>
  Division. A zero divisor is taken as \<open>+0\<close>: a finite non-zero value over zero is the
  infinity of the dividend's sign, and zero over zero is NaN.
\<close>

fun js_div :: "jsnum \<Rightarrow> jsnum \<Rightarrow> jsnum" where
  "js_div (Num a) (Num b) = (if b = 0 then js_inf (js_sign (Num a)) else Num (a / b))"
| "js_div NaN y = NaN"
| "js_div x NaN = NaN"
| "js_div (Num a) y = Num 0"
| "js_div x (Num b) = js_inf (js_sign x * (if b < 0 then - 1 else 1))"
| "js_div x y = NaN"

text \<open>The comparisons \<open>x > y\<close> and \<open>x < y\<close>: false as soon as one side is NaN.\<close>

fun js_lt :: "jsnum \<Rightarrow> jsnum \<Rightarrow> bool" where
  "js_lt (Num a) (Num b) = (a < b)"
| "js_lt NaN y = False"
| "js_lt x NaN = False"
| "js_lt PosInf y = False"
| "js_lt x NegInf = False"
| "js_lt x y = True"

definition js_gt :: "jsnum \<Rightarrow> jsnum \<Rightarrow> bool" where
  "js_gt x y = js_lt y x"

text \<open>Truthiness of a number: \<open>0\<close> and NaN are falsy.\<close>

fun truthy :: "jsnum \<Rightarrow> bool" where
  "truthy (Num a) = (a \<noteq> 0)"
| "truthy NaN = False"
| "truthy x = True"

text \<open>\<open>x || 0\<close> on numbers.\<close>

definition or_zero :: "jsnum \<Rightarrow> jsnum" where
  "or_zero x = (if truthy x then x else Num 0)"

text \<open>\<open>Math.round\<close> rounds to the nearest integer, a tie towards \<open>+\<infinity>\<close>.\<close>

fun Math_round :: "jsnum \<Rightarrow> jsnum" where
  "Math_round (Num a) = Num (of_int \<lfloor>a + 1 / 2\<rfloor>)"
| "Math_round x = x"

fun Math_abs :: "jsnum \<Rightarrow> jsnum" where
  "Math_abs (Num a) = Num \<bar>a\<bar>"
| "Math_abs NaN = NaN"
| "Math_abs x = PosInf"

text \<open>\<open>Math.min\<close> and \<open>Math.max\<close> of two numbers: NaN as soon as one of them is NaN.\<close>

fun Math_min :: "jsnum \<Rightarrow> jsnum \<Rightarrow> jsnum" where
  "Math_min NaN y = NaN"
| "Math_min x NaN = NaN"
| "Math_min x y = (if js_lt y x then y else x)"

fun Math_max :: "jsnum \<Rightarrow> jsnum \<Rightarrow> jsnum" where
  "Math_max NaN y = NaN"
| "Math_max x NaN = NaN"
| "Math_max x y = (if js_lt x y then y else x)"

section \<open>Strings: \<open>split\<close> and \<open>parseFloat\<close>\<close>

text \<open>
  A string is a list of characters (code units below 256). \<open>split sep s\<close> is
  \<open>s.split(sep)\<close> for a one-character separator: the empty string gives one empty field.
\<close>

fun split :: "char \<Rightarrow> string \<Rightarrow> string list" where
  "split sep [] = [[]]"
| "split sep (c # cs) =
     (if c = sep then [] # split sep cs
      else (case split sep cs of [] \<Rightarrow> [[c]] | p # ps \<Rightarrow> (c # p) # ps))"

definition is_digit :: "char \<Rightarrow> bool" where
  "is_digit c \<longleftrightarrow> c \<in> set ''0123456789''"

definition digit_val :: "char \<Rightarrow> nat" where
  "digit_val c = of_char c - 48"

definition dec :: "string \<Rightarrow> nat" where
  "dec ds = foldl (\<lambda>n c. 10 * n + digit_val c) 0 ds"

text \<open>
  The white space and line terminators that \<open>parseFloat\<close> skips, among the code units
  below 256: TAB, LF, VT, FF, CR, SP and NBSP.
\<close>

definition is_ws :: "char \<Rightarrow> bool" where
  "is_ws c \<longleftrightarrow> (of_char c :: nat) \<in> {9, 10, 11, 12, 13, 32, 160}"

definition pow10 :: "int \<Rightarrow> real" where
  "pow10 e = (if 0 \<le> e then 10 ^ nat e else 1 / 10 ^ nat (- e))"

definition exp_digits :: "string \<Rightarrow> int \<Rightarrow> int" where
  "exp_digits s sg = (let ds = takeWhile is_digit s in if ds = [] then 0 else sg * int (dec ds))"

text \<open>
  The optional exponent part at the head of \<open>s\<close>: its value, and \<open>0\<close> when there is
  none or when no digit follows the \<open>e\<close> and its sign (the exponent is then not part of the
  literal).
\<close>

definition parse_exponent :: "string \<Rightarrow> int" where
  "parse_exponent s =
     (case s of
        [] \<Rightarrow> 0
      | c # r \<Rightarrow>
          if c = CHR ''e'' \<or> c = CHR ''E'' then
            (case r of
               [] \<Rightarrow> 0
             | d # r' \<Rightarrow>
                 if d = CHR ''+'' then exp_digits r' 1
                 else if d = CHR ''-'' then exp_digits r' (- 1)
                 else exp_digits r 1)
          else 0)"

text \<open>
  The longest prefix of \<open>s\<close> that is an unsigned decimal literal: digits, an optional
  point with optional digits, an optional exponent; or a point with digits. \<open>None\<close> when no
  prefix is one.
\<close>

definition parse_unsigned :: "string \<Rightarrow> real option" where
  "parse_unsigned s =
     (let ip = takeWhile is_digit s; r1 = dropWhile is_digit s in
      case r1 of
        [] \<Rightarrow> if ip = [] then None else Some (of_nat (dec ip))
      | c # r2 \<Rightarrow>
          if c = CHR ''.'' then
            (let fp = takeWhile is_digit r2; r3 = dropWhile is_digit r2 in
             if ip = [] \<and> fp = [] then None
             else Some ((of_nat (dec ip) + of_nat (dec fp) / 10 ^ length fp)
                        * pow10 (parse_exponent r3)))
          else if ip = [] then None
          else Some (of_nat (dec ip) * pow10 (parse_exponent r1)))"

definition str_decimal :: "string \<Rightarrow> jsnum" where
  "str_decimal s =
     (if take 8 s = ''Infinity'' then PosInf
      else (case parse_unsigned s of None \<Rightarrow> NaN | Some r \<Rightarrow> Num r))"

definition parseFloat :: "string \<Rightarrow> jsnum" where
  "parseFloat input =
     (case dropWhile is_ws input of
        [] \<Rightarrow> NaN
      | c # r \<Rightarrow>
          if c = CHR ''+'' then str_decimal r
          else if c = CHR ''-'' then js_neg (str_decimal r)
          else str_decimal (c # r))"

section \<open>\<open>services/ffmpeg.js\<close>: \<open>parseTimemark\<close>\<close>

text \<open>
  The argument is the \<open>timemark\<close> field of a progress event: a string, or absent
  (\<open>None\<close>). Absent and empty are the falsy cases of \<open>!timemark\<close>.
\<close>

definition parseTimemark :: "string option \<Rightarrow> jsnum" where
  "parseTimemark timemark =
     (case timemark of
        None \<Rightarrow> Num 0
      | Some t \<Rightarrow>
          if t = [] then Num 0
          else
            (let parts = split CHR '':'' t in
             if length parts \<noteq> 3 then Num 0
             else
               (let hours = or_zero (parseFloat (parts ! 0));
                    minutes = or_zero (parseFloat (parts ! 1));
                    seconds = or_zero (parseFloat (parts ! 2))
                in js_add (js_add (js_mul hours (Num 3600)) (js_mul minutes (Num 60))) seconds)))"


section \<open>The environment of the server\<close>

text \<open>
  A progress event of the encoding tool carries a completion percentage and an output
  timestamp; either may be absent. A run of the tool is its progress events followed by one
  terminal event: \<open>end\<close> (\<open>failure = None\<close>) or \<open>error\<close> with the message of the error.
\<close>

record progress_event =
  percent :: "jsnum option"
  timemark :: "string option"

record tool_run =
  events :: "progress_event list"
  failure :: "string option"

text \<open>
  The command handed to the tool, as the builder calls of the source assemble it. A number
  inside a template string is formatted by the runtime: \<open>numToString\<close> of the environment.
\<close>

record ffmpeg_command =
  cmd_inputs :: "string list"
  cmd_inputOptions :: "string list"
  cmd_complexFilter :: "string list"
  cmd_videoFilters :: "string list"
  cmd_videoCodec :: "string option"
  cmd_audioCodec :: "string option"
  cmd_audioBitrate :: "string option"
  cmd_outputOptions :: "string list"
  cmd_output :: string

text \<open>
  What \<open>ffprobe\<close> calls back with: an error, or the metadata, of which only
  \<open>format.duration\<close> is read (a string, a number, or absent).
\<close>

datatype jsval = JStr string | JNum jsnum

datatype probe_result = ProbeError string | Metadata "jsval option"

record env =
  numToString :: "jsnum \<Rightarrow> string"
  run :: "ffmpeg_command \<Rightarrow> tool_run"
  ffprobe :: "string \<Rightarrow> probe_result"
  readdirSync :: "string \<Rightarrow> string + string list"
  writeFile :: "string \<Rightarrow> string \<Rightarrow> string option"
  tempListPath :: string
  access :: "string \<Rightarrow> bool"

text \<open>
  \<open>readdirSync\<close> gives the message of the error it throws, or the file names;
  \<open>writeFile path content\<close> gives the message of its rejection, or \<open>None\<close>;
  \<open>tempListPath\<close> is the path \<open>join(tmpdir(), `ffmpeg-concat-${Date.now()}.txt`)\<close>;
  \<open>access path\<close> says whether \<open>fs.access\<close> resolves.
\<close>

section \<open>The job registry\<close>

datatype status = Processing | Done | Error

record job =
  progress :: jsnum
  status :: status
  error :: "string option"

record config =
  crf :: "jsnum option"
  preset :: "string option"
  maxWidth :: "jsnum option"
  audioBitrate :: "string option"
  concatenateFirst :: bool

definition default_config :: config where
  "default_config = \<lparr>crf = None, preset = None, maxWidth = None, audioBitrate = None,
     concatenateFirst = False\<rparr>"

text \<open>
  What a handler or a pipeline does, in order: a command run by the tool, a record stored
  with \<open>jobs.set\<close>, a response sent.
\<close>

datatype body =
    ErrorBody string
  | JobIdBody string
  | OrderBody "string list" "string list"
  | JobBody job
  | NotReadyBody string status jsnum
  | DownloadBody string string

datatype effect = Run ffmpeg_command | JobSet string job | Respond nat body

section \<open>\<open>services/ffmpeg.js\<close>: the stages\<close>

text \<open>
  A stage takes the progress callback of its caller, here a function from the percentage to
  the effects of the callback, and gives its effects and the message of its rejection
  (\<open>None\<close> when it resolves). Every call site passes a callback.
\<close>

fun truthy_str :: "string option \<Rightarrow> bool" where
  "truthy_str None = False"
| "truthy_str (Some t) = (t \<noteq> [])"

fun js_join :: "string \<Rightarrow> string list \<Rightarrow> string" where
  "js_join sep [] = []"
| "js_join sep [x] = x"
| "js_join sep (x # y # ys) = x @ sep @ js_join sep (y # ys)"

definition or_default :: "'a option \<Rightarrow> 'a \<Rightarrow> 'a" where
  "or_default v d = (case v of None \<Rightarrow> d | Some x \<Rightarrow> x)"

definition combine_command :: "env \<Rightarrow> string \<Rightarrow> string \<Rightarrow> string \<Rightarrow> config \<Rightarrow> ffmpeg_command" where
  "combine_command env videoA videoB outputPath cfg =
     (let filterParts =
            [''[0:v]scale=-2:720,setsar=1[left]'',
             ''[1:v]scale=-2:720,setsar=1[right]'',
             ''[left][right]hstack=inputs=2[v]'',
             ''[0:a][1:a]amerge=inputs=2[a]''];
          filterParts' =
            (case maxWidth cfg of
               Some w \<Rightarrow>
                 if truthy w then
                   filterParts[2 := ''[left][right]hstack=inputs=2[vstacked]'']
                     @ [''[vstacked]scale='' @ numToString env w @ '':-2[v]'']
                 else filterParts
             | None \<Rightarrow> filterParts)
      in \<lparr>cmd_inputs = [videoA, videoB],
          cmd_inputOptions = [],
          cmd_complexFilter = [js_join '';'' filterParts'],
          cmd_videoFilters = [],
          cmd_videoCodec = None,
          cmd_audioCodec = None,
          cmd_audioBitrate = None,
          cmd_outputOptions =
            [''-map'', ''[v]'', ''-map'', ''[a]'', ''-vsync'', ''cfr'', ''-c:v'', ''libx264'',
             ''-preset'', or_default (preset cfg) ''veryfast'',
             ''-crf'', numToString env (or_default (crf cfg) (Num 18)),
             ''-c:a'', ''aac'', ''-b:a'', or_default (audioBitrate cfg) ''192k''],
          cmd_output = outputPath\<rparr>)"

text \<open>
  The handler of \<open>combinePair\<close>, \<open>compressVideo\<close> and \<open>padVideo\<close>: an event with a
  truthy percentage is forwarded, rounded.
\<close>

definition forward_percent :: "(jsnum \<Rightarrow> effect list) \<Rightarrow> progress_event \<Rightarrow> effect list" where
  "forward_percent onProgress ev =
     (case percent ev of
        Some p \<Rightarrow> if truthy p then onProgress (Math_round p) else []
      | None \<Rightarrow> [])"

definition combinePair ::
  "env \<Rightarrow> string \<Rightarrow> string \<Rightarrow> string \<Rightarrow> (jsnum \<Rightarrow> effect list) \<Rightarrow> config
     \<Rightarrow> effect list \<times> string option" where
  "combinePair env videoA videoB outputPath onProgress cfg =
     (let command = combine_command env videoA videoB outputPath cfg; r = run env command
      in (Run command # concat (map (forward_percent onProgress) (events r)),
          map_option (\<lambda>m. ''Failed to combine videos: '' @ m) (failure r)))"

definition parseFloat_val :: "jsval \<Rightarrow> jsnum" where
  "parseFloat_val v = (case v of JStr s \<Rightarrow> parseFloat s | JNum n \<Rightarrow> n)"

definition getVideoDuration :: "env \<Rightarrow> string \<Rightarrow> string + jsnum" where
  "getVideoDuration env videoPath =
     (case ffprobe env videoPath of
        ProbeError m \<Rightarrow> Inl (''Failed to get video duration: '' @ m)
      | Metadata None \<Rightarrow> Inl ''Could not determine video duration''
      | Metadata (Some d) \<Rightarrow> Inr (parseFloat_val d))"

text \<open>The loop that sums the durations of the inputs; an input whose probe fails is skipped.\<close>

fun sum_durations :: "env \<Rightarrow> jsnum \<Rightarrow> string list \<Rightarrow> jsnum" where
  "sum_durations env totalDuration [] = totalDuration"
| "sum_durations env totalDuration (inputPath # rest) =
     (case getVideoDuration env inputPath of
        Inr d \<Rightarrow> sum_durations env (js_add totalDuration d) rest
      | Inl err \<Rightarrow> sum_durations env totalDuration rest)"

text \<open>\<open>path.replace(/'/g, "'\\''")\<close>\<close>

definition escape_quotes :: "string \<Rightarrow> string" where
  "escape_quotes path =
     concat (map (\<lambda>c. if c = CHR 0x27 then [CHR 0x27, CHR 0x5C, CHR 0x27, CHR 0x27] else [c]) path)"

definition fileListContent :: "string list \<Rightarrow> string" where
  "fileListContent inputPaths =
     js_join [CHR 0x0A] (map (\<lambda>path. ''file '' @ [CHR 0x27] @ escape_quotes path @ [CHR 0x27]) inputPaths)"

definition concat_command :: "env \<Rightarrow> string \<Rightarrow> bool \<Rightarrow> ffmpeg_command" where
  "concat_command env outputPath reencode =
     (if reencode then
        \<lparr>cmd_inputs = [tempListPath env],
         cmd_inputOptions = [''-f'', ''concat'', ''-safe'', ''0''],
         cmd_complexFilter = [],
         cmd_videoFilters = [],
         cmd_videoCodec = Some ''libx264'',
         cmd_audioCodec = Some ''aac'',
         cmd_audioBitrate = Some ''192k'',
         cmd_outputOptions = [''-vsync'', ''cfr'', ''-preset'', ''veryfast'', ''-crf'', ''18''],
         cmd_output = outputPath\<rparr>
      else
        \<lparr>cmd_inputs = [tempListPath env],
         cmd_inputOptions = [''-f'', ''concat'', ''-safe'', ''0''],
         cmd_complexFilter = [],
         cmd_videoFilters = [],
         cmd_videoCodec = None,
         cmd_audioCodec = None,
         cmd_audioBitrate = None,
         cmd_outputOptions = [''-c'', ''copy''],
         cmd_output = outputPath\<rparr>)"

text \<open>
  The percentage that the handler of \<open>concatenateVideos\<close> forwards for an event, or
  \<open>None\<close> when it forwards nothing.
\<close>

definition concat_percent :: "jsnum \<Rightarrow> progress_event \<Rightarrow> jsnum option" where
  "concat_percent totalDuration ev =
     (if js_gt totalDuration (Num 0) \<and> truthy_str (timemark ev) then
        (let currentTime = parseTimemark (timemark ev)
         in Some (Math_min (Num 99) (Math_round (js_mul (js_div currentTime totalDuration) (Num 100)))))
      else
        (case percent ev of
           Some p \<Rightarrow> if truthy p then Some (Math_min (Num 100) (Math_round p)) else None
         | None \<Rightarrow> None))"

definition concat_handler :: "jsnum \<Rightarrow> (jsnum \<Rightarrow> effect list) \<Rightarrow> progress_event \<Rightarrow> effect list" where
  "concat_handler totalDuration onProgress ev =
     (case concat_percent totalDuration ev of None \<Rightarrow> [] | Some p \<Rightarrow> onProgress p)"

definition concatenateVideos ::
  "env \<Rightarrow> string list \<Rightarrow> string \<Rightarrow> (jsnum \<Rightarrow> effect list) \<Rightarrow> bool \<Rightarrow> effect list \<times> string option" where
  "concatenateVideos env inputPaths outputPath onProgress reencode =
     (if inputPaths = [] then ([], Some ''No input videos provided for concatenation'')
      else
        (let totalDuration = (if reencode then sum_durations env (Num 0) inputPaths else Num 0)
         in case writeFile env (tempListPath env) (fileListContent inputPaths) of
              Some m \<Rightarrow> ([], Some (''Failed to prepare concatenation: '' @ m))
            | None \<Rightarrow>
                (let command = concat_command env outputPath reencode; r = run env command
                 in (Run command # concat (map (concat_handler totalDuration onProgress) (events r)),
                     map_option (\<lambda>m. ''Failed to concatenate videos: '' @ m) (failure r)))))"

definition compress_command :: "env \<Rightarrow> string \<Rightarrow> string \<Rightarrow> config \<Rightarrow> ffmpeg_command" where
  "compress_command env inputPath outputPath cfg =
     \<lparr>cmd_inputs = [inputPath],
      cmd_inputOptions = [],
      cmd_complexFilter = [],
      cmd_videoFilters =
        (case maxWidth cfg of
           Some w \<Rightarrow> if truthy w then [''scale='' @ numToString env w @ '':-2''] else []
         | None \<Rightarrow> []),
      cmd_videoCodec = Some ''libx264'',
      cmd_audioCodec = Some ''aac'',
      cmd_audioBitrate = Some (or_default (audioBitrate cfg) ''96k''),
      cmd_outputOptions =
        [''-crf'', numToString env (or_default (crf cfg) (Num 28)),
         ''-preset'', or_default (preset cfg) ''slow''],
      cmd_output = outputPath\<rparr>"

definition compressVideo ::
  "env \<Rightarrow> string \<Rightarrow> string \<Rightarrow> config \<Rightarrow> (jsnum \<Rightarrow> effect list) \<Rightarrow> effect list \<times> string option" where
  "compressVideo env inputPath outputPath cfg onProgress =
     (let command = compress_command env inputPath outputPath cfg; r = run env command
      in (Run command # concat (map (forward_percent onProgress) (events r)),
          map_option (\<lambda>m. ''Failed to compress video: '' @ m) (failure r)))"

definition pad_command :: "env \<Rightarrow> string \<Rightarrow> string \<Rightarrow> jsnum \<Rightarrow> ffmpeg_command" where
  "pad_command env inputPath outputPath paddingDuration =
     \<lparr>cmd_inputs = [inputPath],
      cmd_inputOptions = [],
      cmd_complexFilter =
        [''[0:v]tpad=stop_mode=clone:stop_duration='' @ numToString env paddingDuration @ ''[v]'',
         ''[0:a]apad=pad_dur='' @ numToString env paddingDuration @ ''[a]''],
      cmd_videoFilters = [],
      cmd_videoCodec = None,
      cmd_audioCodec = None,
      cmd_audioBitrate = None,
      cmd_outputOptions = [''-map'', ''[v]'', ''-map'', ''[a]''],
      cmd_output = outputPath\<rparr>"

definition padVideo ::
  "env \<Rightarrow> string \<Rightarrow> string \<Rightarrow> jsnum \<Rightarrow> (jsnum \<Rightarrow> effect list) \<Rightarrow> effect list \<times> string option" where
  "padVideo env inputPath outputPath paddingDuration onProgress =
     (let command = pad_command env inputPath outputPath paddingDuration; r = run env command
      in (Run command # concat (map (forward_percent onProgress) (events r)),
          map_option (\<lambda>m. ''Failed to pad video: '' @ m) (failure r)))"

section \<open>\<open>routes/process.js\<close>: the pipelines\<close>

text \<open>
  Paths are written from the project root, the directory that \<open>join(__dirname, '../..')\<close>
  names; \<open>path_join\<close> is \<open>join\<close> on segments that need no normalisation.
\<close>

definition path_join :: "string \<Rightarrow> string \<Rightarrow> string" where
  "path_join dir name = dir @ ''/'' @ name"

definition outputDir :: string where
  "outputDir = ''output''"

definition pairsDir :: string where
  "pairsDir = path_join outputDir ''pairs''"

definition uploadsADir :: string where
  "uploadsADir = ''uploads/a''"

definition uploadsBDir :: string where
  "uploadsBDir = ''uploads/b''"

text \<open>
  \<open>xs[i]\<close> is \<open>undefined\<close> out of range (\<open>None\<close>), and \<open>undefined\<close> reads
  \<open>''undefined''\<close> where a string is expected (\<open>startsWith\<close>, a template string).
\<close>

definition js_nth :: "string list \<Rightarrow> nat \<Rightarrow> string option" where
  "js_nth xs i = (if i < length xs then Some (xs ! i) else None)"

definition id_string :: "string option \<Rightarrow> string" where
  "id_string v = (case v of None \<Rightarrow> ''undefined'' | Some x \<Rightarrow> x)"

definition startsWith :: "string \<Rightarrow> string \<Rightarrow> bool" where
  "startsWith f pre \<longleftrightarrow> take (length pre) f = pre"

definition findFileById :: "env \<Rightarrow> string \<Rightarrow> string option \<Rightarrow> string + string" where
  "findFileById env dir ident =
     (case readdirSync env dir of
        Inl m \<Rightarrow> Inl m
      | Inr files \<Rightarrow>
          (case find (\<lambda>f. startsWith f (id_string ident)) files of
             None \<Rightarrow> Inl (''File not found for ID: '' @ id_string ident)
           | Some file \<Rightarrow> Inr (path_join dir file)))"

text \<open>
  The order \<open>{ a: [...], b: [...] }\<close> of the file identifiers of the two cameras; its fields
  \<open>a\<close> and \<open>b\<close> are \<open>order_a\<close> and \<open>order_b\<close> here.
\<close>

record order =
  order_a :: "string list"
  order_b :: "string list"

text \<open>
  The local variables of a pipeline that outlive one stage. A step of a pipeline takes them
  and gives its effects, the variables as it leaves them, and the message of the error it
  throws, if any.
\<close>

record locals =
  completedSteps :: nat
  pairPaths :: "string list"
  finalConcatAPath :: string
  finalConcatBPath :: string

type_synonym step = "locals \<Rightarrow> effect list \<times> locals \<times> string option"

definition seq :: "step \<Rightarrow> step \<Rightarrow> step" where
  "seq first second l =
     (case first l of
        (es, l', Some m) \<Rightarrow> (es, l', Some m)
      | (es, l', None) \<Rightarrow> (case second l' of (es', r) \<Rightarrow> (es @ es', r)))"

text \<open>The progress callback that each pipeline passes to a stage.\<close>

definition stage_progress :: "nat \<Rightarrow> nat \<Rightarrow> jsnum \<Rightarrow> jsnum" where
  "stage_progress completed totalSteps p =
     (let stepProgress = js_div p (Num 100);
          overallProgress =
            js_mul (js_div (js_add (Num (of_nat completed)) stepProgress) (Num (of_nat totalSteps)))
              (Num 100)
      in Math_round overallProgress)"

definition on_progress :: "string \<Rightarrow> nat \<Rightarrow> nat \<Rightarrow> jsnum \<Rightarrow> effect list" where
  "on_progress jobId completed totalSteps p =
     [JobSet jobId \<lparr>progress = stage_progress completed totalSteps p, status = Processing, error = None\<rparr>]"

text \<open>\<open>Math.round((completedSteps / totalSteps) * 100)\<close>\<close>

definition steps_progress :: "nat \<Rightarrow> nat \<Rightarrow> jsnum" where
  "steps_progress completed totalSteps =
     Math_round (js_mul (js_div (Num (of_nat completed)) (Num (of_nat totalSteps))) (Num 100))"

definition step_done :: "string \<Rightarrow> nat \<Rightarrow> nat \<Rightarrow> effect" where
  "step_done jobId completed totalSteps =
     JobSet jobId \<lparr>progress = steps_progress completed totalSteps, status = Processing, error = None\<rparr>"

subsection \<open>\<open>processVideos\<close>\<close>

text \<open>The body of the loop over the pairs, for the pair of index \<open>i\<close>.\<close>

definition pair_body :: "env \<Rightarrow> string \<Rightarrow> string list \<Rightarrow> string list \<Rightarrow> nat \<Rightarrow> nat \<Rightarrow> step" where
  "pair_body env jobId a b totalSteps i l =
     (case findFileById env uploadsADir (js_nth a i) of
        Inl m \<Rightarrow> ([], l, Some m)
      | Inr videoAPath \<Rightarrow>
          (case findFileById env uploadsBDir (js_nth b i) of
             Inl m \<Rightarrow> ([], l, Some m)
           | Inr videoBPath \<Rightarrow>
               (let pairOutputPath =
                      path_join pairsDir (''pair_'' @ numToString env (Num (of_nat (i + 1))) @ ''.mp4'')
                in case combinePair env videoAPath videoBPath pairOutputPath
                          (on_progress jobId (completedSteps l) totalSteps) default_config of
                     (es, Some m) \<Rightarrow> (es, l, Some m)
                   | (es, None) \<Rightarrow>
                       (let l' = l\<lparr>pairPaths := pairPaths l @ [pairOutputPath],
                                    completedSteps := completedSteps l + 1\<rparr>
                        in (es @ [step_done jobId (completedSteps l') totalSteps], l', None)))))"

function pairs_loop ::
  "env \<Rightarrow> string \<Rightarrow> string list \<Rightarrow> string list \<Rightarrow> nat \<Rightarrow> nat \<Rightarrow> nat \<Rightarrow> step" where
  "pairs_loop env jobId a b totalSteps numPairs i l =
     (if i < numPairs then
        (case pair_body env jobId a b totalSteps i l of
           (es, l', Some m) \<Rightarrow> (es, l', Some m)
         | (es, l', None) \<Rightarrow>
             (case pairs_loop env jobId a b totalSteps numPairs (i + 1) l' of
                (es', r) \<Rightarrow> (es @ es', r)))
      else ([], l, None))"
  by pat_completeness auto
termination
  by (relation "measure (\<lambda>(env, jobId, a, b, totalSteps, numPairs, i, l). numPairs - i)") auto

definition pw_concatenate :: "env \<Rightarrow> string \<Rightarrow> nat \<Rightarrow> step" where
  "pw_concatenate env jobId totalSteps l =
     (let combinedPath = path_join outputDir ''combined.mp4''
      in case concatenateVideos env (pairPaths l) combinedPath
                (on_progress jobId (completedSteps l) totalSteps) False of
           (es, Some m) \<Rightarrow> (es, l, Some m)
         | (es, None) \<Rightarrow>
             (let l' = l\<lparr>completedSteps := completedSteps l + 1\<rparr>
              in (es @ [step_done jobId (completedSteps l') totalSteps], l', None)))"

definition job_done :: "string \<Rightarrow> effect" where
  "job_done jobId = JobSet jobId \<lparr>progress = Num 100, status = Done, error = None\<rparr>"

definition compress_step :: "env \<Rightarrow> string \<Rightarrow> config \<Rightarrow> nat \<Rightarrow> step" where
  "compress_step env jobId cfg totalSteps l =
     (let combinedPath = path_join outputDir ''combined.mp4'';
          finalPath = path_join outputDir ''final.mp4''
      in case compressVideo env combinedPath finalPath cfg
                (on_progress jobId (completedSteps l) totalSteps) of
           (es, Some m) \<Rightarrow> (es, l, Some m)
         | (es, None) \<Rightarrow> (es @ [job_done jobId], l\<lparr>completedSteps := completedSteps l + 1\<rparr>, None))"

definition init_locals :: locals where
  "init_locals = \<lparr>completedSteps = 0, pairPaths = [], finalConcatAPath = [], finalConcatBPath = []\<rparr>"

text \<open>
  The \<open>try\<close> block, and the \<open>catch\<close> block that records the failure and throws the
  error again. The pipeline gives its effects and the message of its rejection. A failure of
  \<open>mkdir\<close> is ignored.
\<close>

definition processVideos_try :: "env \<Rightarrow> string \<Rightarrow> order \<Rightarrow> config \<Rightarrow> nat \<Rightarrow> step" where
  "processVideos_try env jobId ord cfg totalSteps =
     seq (pairs_loop env jobId (order_a ord) (order_b ord) totalSteps (length (order_a ord)) 0)
       (seq (pw_concatenate env jobId totalSteps) (compress_step env jobId cfg totalSteps))"

definition job_failed :: "string \<Rightarrow> nat \<Rightarrow> nat \<Rightarrow> string \<Rightarrow> effect" where
  "job_failed jobId completed totalSteps m =
     JobSet jobId \<lparr>progress = steps_progress completed totalSteps, status = Error, error = Some m\<rparr>"

definition catch_failure :: "string \<Rightarrow> nat \<Rightarrow> effect list \<times> locals \<times> string option
    \<Rightarrow> effect list \<times> string option" where
  "catch_failure jobId totalSteps res =
     (case res of
        (es, l, None) \<Rightarrow> (es, None)
      | (es, l, Some m) \<Rightarrow> (es @ [job_failed jobId (completedSteps l) totalSteps m], Some m))"

definition processVideos :: "env \<Rightarrow> string \<Rightarrow> order \<Rightarrow> config \<Rightarrow> effect list \<times> string option" where
  "processVideos env jobId ord cfg =
     (let numPairs = length (order_a ord);
          totalSteps = numPairs + 2
      in catch_failure jobId totalSteps (processVideos_try env jobId ord cfg totalSteps init_locals))"

subsection \<open>\<open>processVideosConcatenateFirst\<close>\<close>

text \<open>\<open>ids.map(id => findFileById(dir, id))\<close>: the first identifier without a file throws.\<close>

fun find_files :: "env \<Rightarrow> string \<Rightarrow> string list \<Rightarrow> string + string list" where
  "find_files env dir [] = Inr []"
| "find_files env dir (ident # rest) =
     (case findFileById env dir (Some ident) of
        Inl m \<Rightarrow> Inl m
      | Inr path \<Rightarrow>
          (case find_files env dir rest of
             Inl m \<Rightarrow> Inl m
           | Inr paths \<Rightarrow> Inr (path # paths)))"

text \<open>Steps 1 and 2: the videos of one camera are concatenated, re-encoded.\<close>

definition concat_camera :: "env \<Rightarrow> string \<Rightarrow> nat \<Rightarrow> string \<Rightarrow> string list \<Rightarrow> string \<Rightarrow> step" where
  "concat_camera env jobId totalSteps dir ids concatPath l =
     (case find_files env dir ids of
        Inl m \<Rightarrow> ([], l, Some m)
      | Inr videoPaths \<Rightarrow>
          (case concatenateVideos env videoPaths concatPath
                  (on_progress jobId (completedSteps l) totalSteps) True of
             (es, Some m) \<Rightarrow> (es, l, Some m)
           | (es, None) \<Rightarrow>
               (let l' = l\<lparr>completedSteps := completedSteps l + 1\<rparr>
                in (es @ [step_done jobId (completedSteps l') totalSteps], l', None))))"

definition concatAPath :: string where
  "concatAPath = path_join outputDir ''concat_a.mp4''"

definition concatBPath :: string where
  "concatBPath = path_join outputDir ''concat_b.mp4''"

text \<open>
  The durations are probed and the shorter video is padded. The callback given to
  \<open>padVideo\<close> only logs.
\<close>

definition pad_shorter :: "env \<Rightarrow> step" where
  "pad_shorter env l =
     (case getVideoDuration env concatAPath of
        Inl m \<Rightarrow> ([], l, Some m)
      | Inr durationA \<Rightarrow>
          (case getVideoDuration env concatBPath of
             Inl m \<Rightarrow> ([], l, Some m)
           | Inr durationB \<Rightarrow>
               (let l0 = l\<lparr>finalConcatAPath := concatAPath, finalConcatBPath := concatBPath\<rparr>;
                    durationDiff = Math_abs (js_sub durationA durationB)
                in if js_gt durationDiff (Num 5) then
                     (let targetDuration = Math_max durationA durationB;
                          paddingAmount = durationDiff
                      in if js_lt durationA durationB then
                           (let paddedAPath = path_join outputDir ''concat_a_padded.mp4''
                            in case padVideo env concatAPath paddedAPath paddingAmount (\<lambda>p. []) of
                                 (es, Some m) \<Rightarrow> (es, l0, Some m)
                               | (es, None) \<Rightarrow> (es, l0\<lparr>finalConcatAPath := paddedAPath\<rparr>, None))
                         else
                           (let paddedBPath = path_join outputDir ''concat_b_padded.mp4''
                            in case padVideo env concatBPath paddedBPath paddingAmount (\<lambda>p. []) of
                                 (es, Some m) \<Rightarrow> (es, l0, Some m)
                               | (es, None) \<Rightarrow> (es, l0\<lparr>finalConcatBPath := paddedBPath\<rparr>, None)))
                   else ([], l0, None))))"

definition combine_step :: "env \<Rightarrow> string \<Rightarrow> nat \<Rightarrow> step" where
  "combine_step env jobId totalSteps l =
     (let combinedPath = path_join outputDir ''combined.mp4''
      in case combinePair env (finalConcatAPath l) (finalConcatBPath l) combinedPath
                (on_progress jobId (completedSteps l) totalSteps) default_config of
           (es, Some m) \<Rightarrow> (es, l, Some m)
         | (es, None) \<Rightarrow>
             (let l' = l\<lparr>completedSteps := completedSteps l + 1\<rparr>
              in (es @ [step_done jobId (completedSteps l') totalSteps], l', None)))"

definition processVideosConcatenateFirst_try :: "env \<Rightarrow> string \<Rightarrow> order \<Rightarrow> config \<Rightarrow> nat \<Rightarrow> step" where
  "processVideosConcatenateFirst_try env jobId ord cfg totalSteps =
     seq (concat_camera env jobId totalSteps uploadsADir (order_a ord) concatAPath)
       (seq (concat_camera env jobId totalSteps uploadsBDir (order_b ord) concatBPath)
          (seq (pad_shorter env)
             (seq (combine_step env jobId totalSteps) (compress_step env jobId cfg totalSteps))))"

definition processVideosConcatenateFirst ::
  "env \<Rightarrow> string \<Rightarrow> order \<Rightarrow> config \<Rightarrow> effect list \<times> string option" where
  "processVideosConcatenateFirst env jobId ord cfg =
     (let totalSteps = 4
      in catch_failure jobId totalSteps
           (processVideosConcatenateFirst_try env jobId ord cfg totalSteps init_locals))"

subsection \<open>The routes\<close>

record server =
  videoOrder :: order
  jobs :: "string \<rightharpoonup> job"

text \<open>\<open>POST /order\<close>: a field of the body that is not an array is \<open>None\<close>.\<close>

definition post_order :: "server \<Rightarrow> string list option \<Rightarrow> string list option \<Rightarrow> effect list \<times> server" where
  "post_order sv a b =
     (case (a, b) of
        (Some xs, Some ys) \<Rightarrow>
          ([Respond 200 (OrderBody xs ys)], sv\<lparr>videoOrder := \<lparr>order_a = xs, order_b = ys\<rparr>\<rparr>)
      | _ \<Rightarrow> ([Respond 400 (ErrorBody ''Invalid order format. Expected { a: [], b: [] }'')], sv))"

text \<open>
  \<open>POST /process\<close>, with the identifier that \<open>uuidv4\<close> gives. The effects are those of
  the handler, then those of the pipeline that it starts without awaiting it, then that of
  the \<open>catch\<close> callback on the promise of the pipeline.
\<close>

definition post_process :: "env \<Rightarrow> server \<Rightarrow> config \<Rightarrow> string \<Rightarrow> effect list" where
  "post_process env sv cfg jobId =
     (if length (order_a (videoOrder sv)) = 0 \<or> length (order_b (videoOrder sv)) = 0 then
        [Respond 400 (ErrorBody ''No video order set. Call POST /order first'')]
      else if \<not> concatenateFirst cfg
              \<and> length (order_a (videoOrder sv)) \<noteq> length (order_b (videoOrder sv)) then
        [Respond 400 (ErrorBody ''Arrays a and b must have the same length for pair-by-pair mode'')]
      else
        (let processFn = (if concatenateFirst cfg then processVideosConcatenateFirst else processVideos)
         in case processFn env jobId (videoOrder sv) cfg of
              (es, r) \<Rightarrow>
                JobSet jobId \<lparr>progress = Num 0, status = Processing, error = None\<rparr>
                  # Respond 200 (JobIdBody jobId)
                  # es
                  @ (case r of
                       None \<Rightarrow> []
                     | Some m \<Rightarrow> [JobSet jobId \<lparr>progress = Num 0, status = Error, error = Some m\<rparr>])))"

text \<open>The registry after a list of effects.\<close>

fun apply_effect :: "(string \<rightharpoonup> job) \<Rightarrow> effect \<Rightarrow> (string \<rightharpoonup> job)" where
  "apply_effect js (JobSet jobId j) = js(jobId \<mapsto> j)"
| "apply_effect js e = js"

definition apply_effects :: "(string \<rightharpoonup> job) \<Rightarrow> effect list \<Rightarrow> (string \<rightharpoonup> job)" where
  "apply_effects js es = foldl apply_effect js es"

definition get_status :: "server \<Rightarrow> string \<Rightarrow> effect" where
  "get_status sv jobId =
     (case jobs sv jobId of
        None \<Rightarrow> Respond 404 (ErrorBody ''Job not found'')
      | Some j \<Rightarrow> Respond 200 (JobBody j))"

definition get_download :: "env \<Rightarrow> server \<Rightarrow> string \<Rightarrow> effect" where
  "get_download env sv jobId =
     (case jobs sv jobId of
        None \<Rightarrow> Respond 404 (ErrorBody ''Job not found'')
      | Some j \<Rightarrow>
          if status j \<noteq> Done then Respond 404 (NotReadyBody ''Video not ready'' (status j) (progress j))
          else
            (let finalPath = ''output/final.mp4''
             in if access env finalPath then Respond 200 (DownloadBody finalPath ''final.mp4'')
                else Respond 404 (ErrorBody ''File not found'')))"

section \<open>Reading a list of effects\<close>

text \<open>The commands run, and the records stored for one job, in order.\<close>

fun commands :: "effect list \<Rightarrow> ffmpeg_command list" where
  "commands [] = []"
| "commands (Run cmd # es) = cmd # commands es"
| "commands (e # es) = commands es"

fun job_writes :: "string \<Rightarrow> effect list \<Rightarrow> job list" where
  "job_writes jobId [] = []"
| "job_writes jobId (JobSet i j # es) = (if i = jobId then j # job_writes jobId es else job_writes jobId es)"
| "job_writes jobId (e # es) = job_writes jobId es"

text \<open>
  A command of the concatenation stage reads a file list through the concat demuxer. It
  copies the streams, or re-encodes them at a constant frame rate.
\<close>

definition is_concat :: "ffmpeg_command \<Rightarrow> bool" where
  "is_concat cmd \<longleftrightarrow> cmd_inputOptions cmd = [''-f'', ''concat'', ''-safe'', ''0'']"

definition stream_copy :: "ffmpeg_command \<Rightarrow> bool" where
  "stream_copy cmd \<longleftrightarrow>
     cmd_outputOptions cmd = [''-c'', ''copy''] \<and> cmd_videoCodec cmd = None \<and> cmd_audioCodec cmd = None"

definition reencode_cfr :: "ffmpeg_command \<Rightarrow> bool" where
  "reencode_cfr cmd \<longleftrightarrow>
     cmd_videoCodec cmd = Some ''libx264''
     \<and> cmd_outputOptions cmd = [''-vsync'', ''cfr'', ''-preset'', ''veryfast'', ''-crf'', ''18'']"


text \<open>The percentages that a stage forwards to its callback.\<close>

definition forwarded :: "progress_event list \<Rightarrow> jsnum list" where
  "forwarded evs =
     concat (map (\<lambda>ev. case percent ev of
                          Some p \<Rightarrow> if truthy p then [Math_round p] else []
                        | None \<Rightarrow> []) evs)"


text \<open>
  The progress values of the records of a job that leave it processing or done, in the order
  in which they are stored.
\<close>

definition live_progress :: "string \<Rightarrow> effect list \<Rightarrow> jsnum list" where
  "live_progress jobId es = map progress (filter (\<lambda>j. status j \<noteq> Error) (job_writes jobId es))"

section \<open>Progress over the life of a job\<close>

text \<open>The values of a list of numbers, when all are finite.\<close>

fun finite_values :: "jsnum list \<Rightarrow> real list option" where
  "finite_values [] = Some []"
| "finite_values (Num r # ps) = map_option ((#) r) (finite_values ps)"
| "finite_values (p # ps) = None"






text \<open>
  A list of effects whose live progress values are finite, never decrease, and lie between
  \<open>lo\<close> and \<open>hi\<close>.
\<close>

definition rising :: "string \<Rightarrow> real \<Rightarrow> real \<Rightarrow> effect list \<Rightarrow> bool" where
  "rising jobId lo hi es \<longleftrightarrow>
     (\<exists>rs. live_progress jobId es = map Num rs \<and> sorted rs \<and> (\<forall>r\<in>set rs. lo \<le> r \<and> r \<le> hi))"



section \<open>Concrete environments\<close>

text \<open>
  The environments, orders and configurations at which the theorems below are evaluated.
  Both upload directories hold \<open>x.mp4\<close> and \<open>y.mp4\<close>, the file list is always
  written, and the final file can be read.
\<close>

definition demo_numToString :: "jsnum \<Rightarrow> string" where
  "demo_numToString n = (if n = Num 1 then ''1'' else if n = Num 2 then ''2'' else ''n'')"

definition percent_event :: "real \<Rightarrow> progress_event" where
  "percent_event p = \<lparr>percent = Some (Num p), timemark = None\<rparr>"


definition demo_env :: "(ffmpeg_command \<Rightarrow> tool_run) \<Rightarrow> (string \<Rightarrow> probe_result) \<Rightarrow> env" where
  "demo_env tool probe =
     \<lparr>numToString = demo_numToString,
      run = tool,
      ffprobe = probe,
      readdirSync = (\<lambda>dir. Inr [''x.mp4'', ''y.mp4'']),
      writeFile = (\<lambda>path content. None),
      tempListPath = ''/tmp/ffmpeg-concat-1.txt'',
      access = (\<lambda>path. True)\<rparr>"

definition all_succeed :: "ffmpeg_command \<Rightarrow> tool_run" where
  "all_succeed cmd = \<lparr>events = [percent_event 50], failure = None\<rparr>"

definition second_pair_fails :: "ffmpeg_command \<Rightarrow> tool_run" where
  "second_pair_fails cmd =
     (if cmd_output cmd = ''output/pairs/pair_1.mp4''
      then \<lparr>events = [percent_event 50], failure = None\<rparr>
      else \<lparr>events = [], failure = Some ''boom''\<rparr>)"





definition no_probe :: "string \<Rightarrow> probe_result" where
  "no_probe path = ProbeError ''no such file''"

definition probe_durations :: "real \<Rightarrow> real \<Rightarrow> string \<Rightarrow> probe_result" where
  "probe_durations da db path =
     (if path = ''output/concat_a.mp4'' then Metadata (Some (JNum (Num da)))
      else Metadata (Some (JNum (Num db))))"



definition two_pairs :: order where
  "two_pairs = \<lparr>order_a = [''x'', ''y''], order_b = [''x'', ''y'']\<rparr>"

definition two_and_three :: order where
  "two_and_three = \<lparr>order_a = [''x'', ''y''], order_b = [''x'', ''y'', ''x'']\<rparr>"

definition demo_server :: "order \<Rightarrow> server" where
  "demo_server ord = \<lparr>videoOrder = ord, jobs = Map.empty\<rparr>"

definition concat_first :: config where
  "concat_first = default_config\<lparr>concatenateFirst := True\<rparr>"


section \<open>Properties of \<open>parseTimemark\<close>\<close>




lemma or_zero_Num [simp]: "or_zero (Num x) = Num x"
  by (simp add: or_zero_def)

lemma or_zero_NaN [simp]: "or_zero NaN = Num 0"
  by (simp add: or_zero_def)













section \<open>Properties of the pipelines\<close>

declare pairs_loop.simps [simp del]

lemma pairs_loop_done: "\<not> i < n \<Longrightarrow> pairs_loop env jobId a b T n i l = ([], l, None)"
  by (simp add: pairs_loop.simps)

lemma pairs_loop_step:
  "i < n \<Longrightarrow> pairs_loop env jobId a b T n i l =
     seq (pair_body env jobId a b T i) (pairs_loop env jobId a b T n (i + 1)) l"
  by (subst pairs_loop.simps) (auto simp: seq_def split: prod.splits option.splits)

lemma commands_append [simp]: "commands (es @ es') = commands es @ commands es'"
  by (induction es rule: commands.induct) auto

lemma job_writes_append [simp]: "job_writes jobId (es @ es') = job_writes jobId es @ job_writes jobId es'"
  by (induction jobId es rule: job_writes.induct) auto

lemma seq_cases:
  "seq f g l = (es, l', r) \<Longrightarrow>
     (\<exists>m. f l = (es, l', Some m) \<and> r = Some m)
     \<or> (\<exists>es1 l1 es2. f l = (es1, l1, None) \<and> g l1 = (es2, l', r) \<and> es = es1 @ es2)"
  by (auto simp: seq_def split: prod.splits option.splits)

lemma seq_ok: "f l = (es1, l1, None) \<Longrightarrow> g l1 = (es2, l2, r) \<Longrightarrow> seq f g l = (es1 @ es2, l2, r)"
  by (simp add: seq_def)

lemma seq_assoc: "seq (seq f g) h = seq f (seq g h)"
  by (rule ext) (auto simp: seq_def split: prod.splits option.splits)

lemma commands_on_progress [simp]:
  "commands (concat (map (forward_percent (on_progress jobId c T)) evs)) = []"
  by (induction evs) (auto simp: forward_percent_def on_progress_def split: option.splits)

lemma commands_silent [simp]:
  "commands (concat (map (forward_percent (\<lambda>p. [])) evs)) = []"
  by (induction evs) (auto simp: forward_percent_def split: option.splits)

lemma commands_concat_handler [simp]:
  "commands (concat (map (concat_handler d (on_progress jobId c T)) evs)) = []"
  by (induction evs) (auto simp: concat_handler_def on_progress_def split: option.splits)

lemma commands_combinePair [simp]:
  "commands (fst (combinePair env va vb out (on_progress jobId c T) cfg)) = [combine_command env va vb out cfg]"
  by (simp add: combinePair_def Let_def)

lemma commands_compressVideo [simp]:
  "commands (fst (compressVideo env inp out cfg (on_progress jobId c T))) = [compress_command env inp out cfg]"
  by (simp add: compressVideo_def Let_def)

lemma commands_padVideo [simp]:
  "commands (fst (padVideo env inp out d (\<lambda>p. []))) = [pad_command env inp out d]"
  by (simp add: padVideo_def Let_def)

lemma commands_concatenateVideos:
  "concatenateVideos env inputs out (on_progress jobId c T) re = (es, r) \<Longrightarrow>
     commands es = [] \<and> r \<noteq> None \<or> commands es = [concat_command env out re]"
  by (auto simp: concatenateVideos_def Let_def split: if_splits option.splits)

lemma not_concat_combine [simp]: "\<not> is_concat (combine_command env va vb out cfg)"
  by (simp add: is_concat_def combine_command_def Let_def)

lemma not_concat_compress [simp]: "\<not> is_concat (compress_command env inp out cfg)"
  by (simp add: is_concat_def compress_command_def)

lemma not_concat_pad [simp]: "\<not> is_concat (pad_command env inp out d)"
  by (simp add: is_concat_def pad_command_def)

lemma is_concat_concat [simp]: "is_concat (concat_command env out re)"
  by (simp add: is_concat_def concat_command_def)

lemma combinePair_commands:
  "combinePair env va vb out (on_progress jobId c T) cfg = (es, r) \<Longrightarrow>
     commands es = [combine_command env va vb out cfg]"
  using commands_combinePair[of env va vb out jobId c T cfg] by simp

lemma compressVideo_commands:
  "compressVideo env inp out cfg (on_progress jobId c T) = (es, r) \<Longrightarrow>
     commands es = [compress_command env inp out cfg]"
  using commands_compressVideo[of env inp out cfg jobId c T] by simp

lemma padVideo_commands:
  "padVideo env inp out d (\<lambda>p. []) = (es, r) \<Longrightarrow> commands es = [pad_command env inp out d]"
  using commands_padVideo[of env inp out d] by simp

lemma commands_pair_body:
  "pair_body env jobId a b T i l = (es, l', r) \<Longrightarrow> filter is_concat (commands es) = []"
  by (auto simp: pair_body_def Let_def step_done_def split: sum.splits prod.splits option.splits
      dest!: combinePair_commands)

lemma commands_pairs_loop:
  "pairs_loop env jobId a b T n i l = (es, l', r) \<Longrightarrow> filter is_concat (commands es) = []"
proof (induction env jobId a b T n i l arbitrary: es l' r rule: pairs_loop.induct)
  case (1 env jobId a b T n i l)
  show ?case
  proof (cases "i < n")
    case False
    with "1.prems" show ?thesis by (simp add: pairs_loop_done)
  next
    case True
    obtain es1 l1 r1 where body: "pair_body env jobId a b T i l = (es1, l1, r1)"
      by (cases "pair_body env jobId a b T i l") auto
    show ?thesis
    proof (cases r1)
      case (Some m)
      with True body "1.prems" show ?thesis
        by (auto simp: pairs_loop_step seq_def dest: commands_pair_body)
    next
      case None
      obtain es2 l2 r2 where rest: "pairs_loop env jobId a b T n (i + 1) l1 = (es2, l2, r2)"
        by (cases "pairs_loop env jobId a b T n (i + 1) l1") auto
      have "filter is_concat (commands es2) = []"
        by (rule "1.IH"[OF True body[symmetric] refl None rest])
      with True body None rest "1.prems" show ?thesis
        by (auto simp: pairs_loop_step seq_def dest: commands_pair_body)
    qed
  qed
qed

lemma commands_pw_concatenate:
  "pw_concatenate env jobId T l = (es, l', r) \<Longrightarrow>
     (r = None \<longrightarrow> commands es = [concat_command env (path_join outputDir ''combined.mp4'') False])
     \<and> set (commands es) \<subseteq> {concat_command env (path_join outputDir ''combined.mp4'') False}"
  by (auto simp: pw_concatenate_def Let_def step_done_def split: prod.splits option.splits
      dest!: commands_concatenateVideos)

lemma commands_compress_step:
  "compress_step env jobId cfg T l = (es, l', r) \<Longrightarrow>
     commands es = [compress_command env (path_join outputDir ''combined.mp4'') (path_join outputDir ''final.mp4'') cfg]"
  by (auto simp: compress_step_def Let_def job_done_def split: prod.splits option.splits
      dest!: compressVideo_commands)

lemma commands_concat_camera:
  "concat_camera env jobId T dir ids out l = (es, l', r) \<Longrightarrow>
     (r = None \<longrightarrow> commands es = [concat_command env out True])
     \<and> set (commands es) \<subseteq> {concat_command env out True}"
  by (auto simp: concat_camera_def Let_def step_done_def split: prod.splits option.splits sum.splits
      dest!: commands_concatenateVideos)

lemma commands_pad_shorter:
  "pad_shorter env l = (es, l', r) \<Longrightarrow> filter is_concat (commands es) = []"
  by (auto simp: pad_shorter_def Let_def split: prod.splits option.splits sum.splits if_splits
      dest!: padVideo_commands)

lemma commands_combine_step:
  "combine_step env jobId T l = (es, l', r) \<Longrightarrow>
     commands es = [combine_command env (finalConcatAPath l) (finalConcatBPath l) (path_join outputDir ''combined.mp4'') default_config]"
  by (auto simp: combine_step_def Let_def step_done_def split: prod.splits option.splits
      dest!: combinePair_commands)

lemma pw_commands:
  assumes "processVideos_try env jobId ord cfg T l0 = (es, l, r)"
  shows "set (filter is_concat (commands es)) \<subseteq> {concat_command env (path_join outputDir ''combined.mp4'') False}"
    and "r = None \<Longrightarrow> \<exists>cs. commands es = cs @ [concat_command env (path_join outputDir ''combined.mp4'') False,
           compress_command env (path_join outputDir ''combined.mp4'') (path_join outputDir ''final.mp4'') cfg]
           \<and> filter is_concat cs = []"
proof -
  let ?loop = "pairs_loop env jobId (order_a ord) (order_b ord) T (length (order_a ord)) 0"
  let ?rest = "seq (pw_concatenate env jobId T) (compress_step env jobId cfg T)"
  from assms have s: "seq ?loop ?rest l0 = (es, l, r)"
    by (simp add: processVideos_try_def)
  from seq_cases[OF s]
  have "set (filter is_concat (commands es)) \<subseteq> {concat_command env (path_join outputDir ''combined.mp4'') False}
    \<and> (r = None \<longrightarrow> (\<exists>cs. commands es = cs @ [concat_command env (path_join outputDir ''combined.mp4'') False,
           compress_command env (path_join outputDir ''combined.mp4'') (path_join outputDir ''final.mp4'') cfg]
           \<and> filter is_concat cs = []))"
  proof (elim disjE exE conjE)
    fix m assume "?loop l0 = (es, l, Some m)" "r = Some m"
    then show ?thesis by (auto simp: filter_empty_conv dest!: commands_pairs_loop)
  next
    fix es1 l1 es2
    assume loop: "?loop l0 = (es1, l1, None)" and rest: "?rest l1 = (es2, l, r)" and es: "es = es1 @ es2"
    have c1: "filter is_concat (commands es1) = []"
      using loop by (rule commands_pairs_loop)
    from seq_cases[OF rest] show ?thesis
    proof (elim disjE exE conjE)
      fix m assume "pw_concatenate env jobId T l1 = (es2, l, Some m)" "r = Some m"
      then show ?thesis using c1 es by (auto simp: filter_empty_conv dest!: commands_pw_concatenate)
    next
      fix es3 l3 es4
      assume cc: "pw_concatenate env jobId T l1 = (es3, l3, None)"
        and cp: "compress_step env jobId cfg T l3 = (es4, l, r)" and es2: "es2 = es3 @ es4"
      from commands_pw_concatenate[OF cc] commands_compress_step[OF cp]
      show ?thesis using c1 es es2 by (auto simp: filter_empty_conv)
    qed
  qed
  then show "set (filter is_concat (commands es)) \<subseteq> {concat_command env (path_join outputDir ''combined.mp4'') False}"
    and "r = None \<Longrightarrow> \<exists>cs. commands es = cs @ [concat_command env (path_join outputDir ''combined.mp4'') False,
           compress_command env (path_join outputDir ''combined.mp4'') (path_join outputDir ''final.mp4'') cfg]
           \<and> filter is_concat cs = []"
    by blast+
qed

lemma seq_success:
  "seq f g l = (es, l', None) \<Longrightarrow>
     \<exists>es1 l1 es2. f l = (es1, l1, None) \<and> g l1 = (es2, l', None) \<and> es = es1 @ es2"
  by (auto dest: seq_cases)

lemma seq_all_commands:
  assumes f: "\<And>l es l' r. f l = (es, l', r) \<Longrightarrow> \<forall>c\<in>set (commands es). Q c"
    and g: "\<And>l es l' r. g l = (es, l', r) \<Longrightarrow> \<forall>c\<in>set (commands es). Q c"
    and s: "seq f g l = (es, l', r)"
  shows "\<forall>c\<in>set (commands es). Q c"
  using seq_cases[OF s] f g by fastforce

lemma reencode_concat [simp]: "reencode_cfr (concat_command env out True)"
  by (simp add: reencode_cfr_def concat_command_def)

lemma copy_concat [simp]: "stream_copy (concat_command env out False)"
  by (simp add: stream_copy_def concat_command_def)

lemma cf_all_commands:
  assumes "processVideosConcatenateFirst_try env jobId ord cfg T l0 = (es, l, r)"
  shows "\<forall>c\<in>set (commands es). is_concat c \<longrightarrow> reencode_cfr c"
  using assms unfolding processVideosConcatenateFirst_try_def
  by (elim seq_all_commands[rotated 2])
     (auto simp: filter_empty_conv dest!: commands_concat_camera commands_pad_shorter
        commands_combine_step commands_compress_step)

lemma pw_all_commands:
  assumes "processVideos_try env jobId ord cfg T l0 = (es, l, r)"
  shows "\<forall>c\<in>set (commands es). is_concat c \<longrightarrow> stream_copy c"
  using assms unfolding processVideos_try_def
  by (elim seq_all_commands[rotated 2])
     (auto simp: filter_empty_conv dest!: commands_pairs_loop commands_pw_concatenate commands_compress_step)

lemma cf_success_commands:
  assumes "processVideosConcatenateFirst_try env jobId ord cfg T l0 = (es, l, None)"
  shows "\<exists>cs fa fb. commands es =
      [concat_command env concatAPath True, concat_command env concatBPath True] @ cs
        @ [combine_command env fa fb (path_join outputDir ''combined.mp4'') default_config,
           compress_command env (path_join outputDir ''combined.mp4'') (path_join outputDir ''final.mp4'') cfg]
      \<and> filter is_concat cs = []"
proof -
  from assms obtain esA lA es1 where
    A: "concat_camera env jobId T uploadsADir (order_a ord) concatAPath l0 = (esA, lA, None)"
    and r1: "seq (concat_camera env jobId T uploadsBDir (order_b ord) concatBPath)
          (seq (pad_shorter env) (seq (combine_step env jobId T) (compress_step env jobId cfg T))) lA = (es1, l, None)"
    and e1: "es = esA @ es1"
    unfolding processVideosConcatenateFirst_try_def by (blast dest: seq_success)
  from r1 obtain esB lB es2 where
    B: "concat_camera env jobId T uploadsBDir (order_b ord) concatBPath lA = (esB, lB, None)"
    and r2: "seq (pad_shorter env) (seq (combine_step env jobId T) (compress_step env jobId cfg T)) lB = (es2, l, None)"
    and e2: "es1 = esB @ es2"
    by (blast dest: seq_success)
  from r2 obtain esP lP es3 where
    P: "pad_shorter env lB = (esP, lP, None)"
    and r3: "seq (combine_step env jobId T) (compress_step env jobId cfg T) lP = (es3, l, None)"
    and e3: "es2 = esP @ es3"
    by (blast dest: seq_success)
  from r3 obtain esC lC esK where
    C: "combine_step env jobId T lP = (esC, lC, None)"
    and K: "compress_step env jobId cfg T lC = (esK, l, None)"
    and e4: "es3 = esC @ esK"
    by (blast dest: seq_success)
  from commands_concat_camera[OF A] commands_concat_camera[OF B] commands_pad_shorter[OF P]
    commands_combine_step[OF C] commands_compress_step[OF K]
  show ?thesis
    unfolding e1 e2 e3 e4 by auto
qed

text \<open>
  C6. Every concatenation command that the Pairwise pipeline runs copies the streams, and a
  job of that pipeline that succeeds has run exactly one. Every concatenation command that
  the ConcatenateFirst pipeline runs re-encodes at a constant frame rate, and a job of that
  pipeline that succeeds has run exactly two. Neither depends on the environment, the job,
  the order or the configuration.
\<close>

theorem concatenation_modes:
  "(\<forall>c\<in>set (commands (fst (processVideos env jobId ord cfg))). is_concat c \<longrightarrow> stream_copy c)
   \<and> (snd (processVideos env jobId ord cfg) = None \<longrightarrow>
        length (filter is_concat (commands (fst (processVideos env jobId ord cfg)))) = 1)
   \<and> (\<forall>c\<in>set (commands (fst (processVideosConcatenateFirst env jobId ord cfg))).
        is_concat c \<longrightarrow> reencode_cfr c)
   \<and> (snd (processVideosConcatenateFirst env jobId ord cfg) = None \<longrightarrow>
        length (filter is_concat (commands (fst (processVideosConcatenateFirst env jobId ord cfg)))) = 2)"
proof -
  obtain es l r where pw: "processVideos_try env jobId ord cfg (length (order_a ord) + 2) init_locals = (es, l, r)"
    by (metis prod_cases3)
  obtain es' l' r' where cf: "processVideosConcatenateFirst_try env jobId ord cfg 4 init_locals = (es', l', r')"
    by (metis prod_cases3)
  have 1: "commands (fst (processVideos env jobId ord cfg)) = commands es"
    "snd (processVideos env jobId ord cfg) = r"
    using pw by (cases r; simp add: processVideos_def Let_def catch_failure_def job_failed_def)+
  have 2: "commands (fst (processVideosConcatenateFirst env jobId ord cfg)) = commands es'"
    "snd (processVideosConcatenateFirst env jobId ord cfg) = r'"
    using cf by (cases r'; simp add: processVideosConcatenateFirst_def Let_def catch_failure_def job_failed_def)+
  have 3: "length (filter is_concat (commands es)) = 1" if "r = None"
    using pw_commands(2)[OF pw that] by auto
  have 4: "length (filter is_concat (commands es')) = 2" if "r' = None"
    using cf_success_commands[OF cf[unfolded that]] by auto
  show ?thesis
    unfolding 1 2 using pw_all_commands[OF pw] cf_all_commands[OF cf] 3 4 by blast
qed

theorem concatenation_modes_witness:
  "length (filter is_concat (commands (fst (processVideos (demo_env all_succeed no_probe) ''job-1'' two_pairs default_config)))) = 1
   \<and> stream_copy (concat_command (demo_env all_succeed no_probe) ''output/combined.mp4'' False)
   \<and> length (filter is_concat (commands (fst (processVideosConcatenateFirst (demo_env all_succeed (probe_durations 70 60)) ''job-1'' two_and_three concat_first)))) = 2
   \<and> reencode_cfr (concat_command (demo_env all_succeed (probe_durations 70 60)) ''output/concat_a.mp4'' True)"
proof -
  let ?E = "demo_env all_succeed no_probe" and ?F = "demo_env all_succeed (probe_durations 70 60)"
  have ok: "snd (processVideos ?E ''job-1'' two_pairs default_config) = None"
    "snd (processVideosConcatenateFirst ?F ''job-1'' two_and_three concat_first) = None"
    by code_simp+
  have ran: "concat_command ?E ''output/combined.mp4'' False
       \<in> set (commands (fst (processVideos ?E ''job-1'' two_pairs default_config)))"
    "concat_command ?F ''output/concat_a.mp4'' True
       \<in> set (commands (fst (processVideosConcatenateFirst ?F ''job-1'' two_and_three concat_first)))"
    by code_simp+
  show ?thesis
    using concatenation_modes [of ?E "''job-1''" two_pairs default_config]
      concatenation_modes [of ?F "''job-1''" two_and_three concat_first] ok ran
    by (meson is_concat_concat)
qed

lemma last_commands_pw:
  assumes "processVideos_try env jobId ord cfg T l0 = (es, l, None)"
  shows "last (commands es) = compress_command env (path_join outputDir ''combined.mp4'') (path_join outputDir ''final.mp4'') cfg"
  using pw_commands(2)[OF assms] by auto

lemma last_commands_cf:
  assumes "processVideosConcatenateFirst_try env jobId ord cfg T l0 = (es, l, None)"
  shows "last (commands es) = compress_command env (path_join outputDir ''combined.mp4'') (path_join outputDir ''final.mp4'') cfg"
  using cf_success_commands[OF assms] by auto

lemma final_path: "path_join outputDir ''final.mp4'' = ''output/final.mp4''"
  by (simp add: path_join_def outputDir_def)

lemma combined_path: "path_join outputDir ''combined.mp4'' = ''output/combined.mp4''"
  by (simp add: path_join_def outputDir_def)

text \<open>
  C9. In both pipelines the last command of a job that succeeds is the compression, and it
  writes \<open>output/final.mp4\<close>. The download of any job whose status is \<open>done\<close> serves that
  same path, when the file can be read: the path does not depend on the job.
\<close>

theorem final_artifact_path:
  "(snd (processVideos env jobId ord cfg) = None \<longrightarrow>
      last (commands (fst (processVideos env jobId ord cfg)))
        = compress_command env ''output/combined.mp4'' ''output/final.mp4'' cfg
      \<and> cmd_output (last (commands (fst (processVideos env jobId ord cfg)))) = ''output/final.mp4'')
   \<and> (snd (processVideosConcatenateFirst env jobId ord cfg) = None \<longrightarrow>
      last (commands (fst (processVideosConcatenateFirst env jobId ord cfg)))
        = compress_command env ''output/combined.mp4'' ''output/final.mp4'' cfg
      \<and> cmd_output (last (commands (fst (processVideosConcatenateFirst env jobId ord cfg)))) = ''output/final.mp4'')
   \<and> (jobs sv jobId = Some j \<and> status j = Done \<longrightarrow>
      get_download env sv jobId =
        (if access env ''output/final.mp4'' then Respond 200 (DownloadBody ''output/final.mp4'' ''final.mp4'')
         else Respond 404 (ErrorBody ''File not found'')))"
proof -
  obtain es l r where pw: "processVideos_try env jobId ord cfg (length (order_a ord) + 2) init_locals = (es, l, r)"
    by (metis prod_cases3)
  obtain es' l' r' where cf: "processVideosConcatenateFirst_try env jobId ord cfg 4 init_locals = (es', l', r')"
    by (metis prod_cases3)
  have 1: "commands (fst (processVideos env jobId ord cfg)) = commands es"
    "snd (processVideos env jobId ord cfg) = r"
    using pw by (cases r; simp add: processVideos_def Let_def catch_failure_def job_failed_def)+
  have 2: "commands (fst (processVideosConcatenateFirst env jobId ord cfg)) = commands es'"
    "snd (processVideosConcatenateFirst env jobId ord cfg) = r'"
    using cf by (cases r'; simp add: processVideosConcatenateFirst_def Let_def catch_failure_def job_failed_def)+
  have 3: "last (commands es) = compress_command env ''output/combined.mp4'' ''output/final.mp4'' cfg" if "r = None"
    using last_commands_pw[OF pw[unfolded that]] by (simp add: final_path combined_path)
  have 4: "last (commands es') = compress_command env ''output/combined.mp4'' ''output/final.mp4'' cfg" if "r' = None"
    using last_commands_cf[OF cf[unfolded that]] by (simp add: final_path combined_path)
  have 5: "cmd_output (compress_command env ''output/combined.mp4'' ''output/final.mp4'' cfg) = ''output/final.mp4''"
    by (simp add: compress_command_def)
  have 6: "get_download env sv jobId =
        (if access env ''output/final.mp4'' then Respond 200 (DownloadBody ''output/final.mp4'' ''final.mp4'')
         else Respond 404 (ErrorBody ''File not found''))" if "jobs sv jobId = Some j" "status j = Done"
    using that by (simp add: get_download_def)
  show ?thesis
    unfolding 1 2 using 3 4 5 6 by simp
qed

theorem final_artifact_path_witness:
  "cmd_output (last (commands (fst (processVideos (demo_env all_succeed no_probe) ''job-1'' two_pairs default_config))))
      = ''output/final.mp4''
   \<and> cmd_output (last (commands (fst (processVideosConcatenateFirst (demo_env all_succeed (probe_durations 70 60)) ''job-2'' two_and_three concat_first))))
      = ''output/final.mp4''
   \<and> get_download (demo_env all_succeed no_probe)
        \<lparr>videoOrder = two_pairs, jobs = [''job-1'' \<mapsto> \<lparr>progress = Num 100, status = Done, error = None\<rparr>]\<rparr> ''job-1''
      = Respond 200 (DownloadBody ''output/final.mp4'' ''final.mp4'')"
proof -
  let ?E = "demo_env all_succeed no_probe" and ?F = "demo_env all_succeed (probe_durations 70 60)"
  let ?sv = "\<lparr>videoOrder = two_pairs, jobs = [''job-1'' \<mapsto> \<lparr>progress = Num 100, status = Done, error = None\<rparr>]\<rparr>"
  have ok: "snd (processVideos ?E ''job-1'' two_pairs default_config) = None"
    "snd (processVideosConcatenateFirst ?F ''job-2'' two_and_three concat_first) = None"
    by code_simp+
  have job: "jobs ?sv ''job-1'' = Some \<lparr>progress = Num 100, status = Done, error = None\<rparr>"
    "status \<lparr>progress = Num 100, status = Done, error = None\<rparr> = Done"
    "access ?E ''output/final.mp4''"
    by (simp_all add: demo_env_def)
  note pw = final_artifact_path [of ?E "''job-1''" two_pairs default_config ?sv "\<lparr>progress = Num 100, status = Done, error = None\<rparr>"]
  note cf = final_artifact_path [of ?F "''job-2''" two_and_three concat_first ?sv "\<lparr>progress = Num 100, status = Done, error = None\<rparr>"]
  have 1: "cmd_output (last (commands (fst (processVideos ?E ''job-1'' two_pairs default_config)))) = ''output/final.mp4''"
    using pw ok(1) by blast
  have 2: "cmd_output (last (commands (fst (processVideosConcatenateFirst ?F ''job-2'' two_and_three concat_first)))) = ''output/final.mp4''"
    using cf ok(2) by blast
  have "get_download ?E ?sv ''job-1'' =
      (if access ?E ''output/final.mp4'' then Respond 200 (DownloadBody ''output/final.mp4'' ''final.mp4'')
       else Respond 404 (ErrorBody ''File not found''))"
    using pw job(1,2) by blast
  then have 3: "get_download ?E ?sv ''job-1'' = Respond 200 (DownloadBody ''output/final.mp4'' ''final.mp4'')"
    using job(3) by simp
  show ?thesis
    using 1 2 3 by blast
qed





section \<open>Properties of job creation and of failure\<close>

text \<open>
  C3. \<open>POST /process\<close> answers with a validation error, and does nothing else (no record
  is stored, no command runs), exactly when a stream of the order is empty, or the mode is
  Pairwise and the two streams differ in length. Otherwise it stores the record of the job,
  progress \<open>0\<close> and status \<open>processing\<close>, then sends the job identifier, and only then
  does the pipeline start.
\<close>

theorem create_job:
  "((\<exists>msg. post_process env sv cfg jobId = [Respond 400 (ErrorBody msg)]) \<longleftrightarrow>
      (order_a (videoOrder sv) = [] \<or> order_b (videoOrder sv) = []
       \<or> (\<not> concatenateFirst cfg \<and> length (order_a (videoOrder sv)) \<noteq> length (order_b (videoOrder sv)))))
   \<and> ((\<exists>rest. post_process env sv cfg jobId =
          JobSet jobId \<lparr>progress = Num 0, status = Processing, error = None\<rparr>
            # Respond 200 (JobIdBody jobId) # rest) \<longleftrightarrow>
      \<not> (order_a (videoOrder sv) = [] \<or> order_b (videoOrder sv) = []
       \<or> (\<not> concatenateFirst cfg \<and> length (order_a (videoOrder sv)) \<noteq> length (order_b (videoOrder sv)))))"
  by (auto simp: post_process_def Let_def split: prod.splits)

theorem create_job_witness:
  "(\<exists>msg. post_process (demo_env all_succeed no_probe) (demo_server two_and_three) default_config ''job-1''
      = [Respond 400 (ErrorBody msg)])
   \<and> (\<exists>msg. post_process (demo_env all_succeed no_probe) (demo_server \<lparr>order_a = [], order_b = [''x'']\<rparr>) concat_first ''job-1''
      = [Respond 400 (ErrorBody msg)])
   \<and> (\<exists>rest. post_process (demo_env all_succeed no_probe) (demo_server two_pairs) default_config ''job-1''
      = JobSet ''job-1'' \<lparr>progress = Num 0, status = Processing, error = None\<rparr>
          # Respond 200 (JobIdBody ''job-1'') # rest)
   \<and> (\<exists>rest. post_process (demo_env all_succeed no_probe) (demo_server two_and_three) concat_first ''job-1''
      = JobSet ''job-1'' \<lparr>progress = Num 0, status = Processing, error = None\<rparr>
          # Respond 200 (JobIdBody ''job-1'') # rest)"
  using create_job [of "demo_env all_succeed no_probe" "demo_server two_and_three" default_config "''job-1''"]
    create_job [of "demo_env all_succeed no_probe" "demo_server \<lparr>order_a = [], order_b = [''x'']\<rparr>" concat_first "''job-1''"]
    create_job [of "demo_env all_succeed no_probe" "demo_server two_pairs" default_config "''job-1''"]
    create_job [of "demo_env all_succeed no_probe" "demo_server two_and_three" concat_first "''job-1''"]
  by (simp add: demo_server_def two_pairs_def two_and_three_def default_config_def concat_first_def)

text \<open>
  Whenever the pipeline of a job that was created is rejected, the record that the registry
  holds in the end is the one stored by the \<open>catch\<close> callback of the route: the status
  \<open>error\<close>, the message of the pipeline, and the progress \<open>0\<close>.
\<close>

lemma apply_effects_last:
  "apply_effects js (es @ [JobSet jobId j]) jobId = Some j"
  by (simp add: apply_effects_def)

lemma failed_job_final_record:
  assumes "order_a (videoOrder sv) \<noteq> []" and "order_b (videoOrder sv) \<noteq> []"
    and "concatenateFirst cfg \<or> length (order_a (videoOrder sv)) = length (order_b (videoOrder sv))"
    and "snd ((if concatenateFirst cfg then processVideosConcatenateFirst else processVideos)
           env jobId (videoOrder sv) cfg) = Some m"
  shows "apply_effects js (post_process env sv cfg jobId) jobId =
     Some \<lparr>progress = Num 0, status = Error, error = Some m\<rparr>"
proof -
  let ?processFn = "if concatenateFirst cfg then processVideosConcatenateFirst else processVideos"
  obtain es where run: "?processFn env jobId (videoOrder sv) cfg = (es, Some m)"
    using assms(4) by (metis prod.collapse)
  have "post_process env sv cfg jobId =
      (JobSet jobId \<lparr>progress = Num 0, status = Processing, error = None\<rparr>
         # Respond 200 (JobIdBody jobId) # es)
      @ [JobSet jobId \<lparr>progress = Num 0, status = Error, error = Some m\<rparr>]"
    using assms(1-3) run by (auto simp: post_process_def Let_def)
  then show ?thesis
    by (simp only: apply_effects_last)
qed

text \<open>
  C2, at a failing input. Two pairs; the first is combined, the tool reporting 50 percent
  on the way, and the combine stage of the second is rejected at once. The last progress
  recorded before the failure is \<open>25\<close>, and the \<open>catch\<close> block of the pipeline records
  \<open>25\<close> with the error. The \<open>catch\<close> callback of the route then stores progress \<open>0\<close>,
  which is what the registry holds in the end.
\<close>

theorem failed_combine_resets_progress:
  "job_writes ''job-1''
     (post_process (demo_env second_pair_fails no_probe) (demo_server two_pairs) default_config ''job-1'') =
   [\<lparr>progress = Num 0, status = Processing, error = None\<rparr>,
    \<lparr>progress = Num 13, status = Processing, error = None\<rparr>,
    \<lparr>progress = Num 25, status = Processing, error = None\<rparr>,
    \<lparr>progress = Num 25, status = Error, error = Some ''Failed to combine videos: boom''\<rparr>,
    \<lparr>progress = Num 0, status = Error, error = Some ''Failed to combine videos: boom''\<rparr>]
   \<and> apply_effects Map.empty
        (post_process (demo_env second_pair_fails no_probe) (demo_server two_pairs) default_config ''job-1'')
        ''job-1'' =
      Some \<lparr>progress = Num 0, status = Error, error = Some ''Failed to combine videos: boom''\<rparr>"
  by code_simp

section \<open>Properties of the progress of a re-encoding concatenation\<close>






section \<open>Properties of the step counter\<close>

lemma forward_percent_forwarded:
  "concat (map (forward_percent cb) evs) = concat (map cb (forwarded evs))"
  by (induction evs) (auto simp: forward_percent_def forwarded_def split: option.splits)


lemma combinePair_effects:
  "combinePair env va vb out cb cfg = (es, r) \<Longrightarrow>
     es = Run (combine_command env va vb out cfg)
        # concat (map cb (forwarded (events (run env (combine_command env va vb out cfg)))))"
  by (auto simp: combinePair_def Let_def forward_percent_forwarded)

lemma compressVideo_effects:
  "compressVideo env inp out cfg cb = (es, r) \<Longrightarrow>
     es = Run (compress_command env inp out cfg)
        # concat (map cb (forwarded (events (run env (compress_command env inp out cfg)))))"
  by (auto simp: compressVideo_def Let_def forward_percent_forwarded)










lemma compress_step_effects:
  assumes "compress_step env jobId cfg T l = (es, l', r)"
  shows "es = Run (compress_command env ''output/combined.mp4'' ''output/final.mp4'' cfg)
          # concat (map (on_progress jobId (completedSteps l) T)
               (forwarded (events (run env (compress_command env ''output/combined.mp4'' ''output/final.mp4'' cfg)))))
          @ (if r = None then [job_done jobId] else [])
     \<and> completedSteps l' = completedSteps l + (if r = None then 1 else 0)"
  using assms
  by (auto simp: compress_step_def Let_def combined_path final_path split: option.splits prod.splits
      dest!: compressVideo_effects)




lemma concat_camera_effects:
  assumes "concat_camera env jobId T dir ids out l = (es, l', r)"
  shows "completedSteps l' = completedSteps l + (if r = None then 1 else 0)"
  using assms
  by (auto simp: concat_camera_def Let_def split: sum.splits option.splits prod.splits)

lemma job_writes_silent [simp]:
  "job_writes jobId (concat (map (forward_percent (\<lambda>p. [])) evs)) = []"
  by (induction evs) (auto simp: forward_percent_def split: option.splits)

lemma pad_shorter_silent:
  assumes "pad_shorter env l = (es, l', r)"
  shows "completedSteps l' = completedSteps l \<and> job_writes jobId es = []"
  using assms
  by (auto simp: pad_shorter_def Let_def padVideo_def split: sum.splits option.splits prod.splits if_splits)

lemma combine_step_effects:
  assumes "combine_step env jobId T l = (es, l', r)"
  shows "es = Run (combine_command env (finalConcatAPath l) (finalConcatBPath l) ''output/combined.mp4'' default_config)
          # concat (map (on_progress jobId (completedSteps l) T)
               (forwarded (events (run env (combine_command env (finalConcatAPath l) (finalConcatBPath l)
                  ''output/combined.mp4'' default_config)))))
          @ (if r = None then [step_done jobId (completedSteps l + 1) T] else [])
     \<and> completedSteps l' = completedSteps l + (if r = None then 1 else 0)"
  using assms
  by (auto simp: combine_step_def Let_def combined_path split: option.splits prod.splits
      dest!: combinePair_effects)

text \<open>
  C8. In the ConcatenateFirst pipeline the total is 4 steps, whatever the order holds. After
  the two concatenations \<open>completedSteps\<close> is 2; the padding step leaves it at 2 and
  stores no record; the combine stage reports its progress from 2 and leaves 3 (progress
  75); the compression reports from 3 and leaves 4 (progress 100, done).
\<close>

theorem concat_first_steps:
  "processVideosConcatenateFirst env jobId ord cfg =
      catch_failure jobId 4 (processVideosConcatenateFirst_try env jobId ord cfg 4 init_locals)
   \<and> processVideosConcatenateFirst_try env jobId ord cfg 4 =
      seq (seq (seq (concat_camera env jobId 4 uploadsADir (order_a ord) concatAPath)
                    (concat_camera env jobId 4 uploadsBDir (order_b ord) concatBPath))
               (pad_shorter env))
          (seq (combine_step env jobId 4) (compress_step env jobId cfg 4))
   \<and> (seq (concat_camera env jobId 4 uploadsADir (order_a ord) concatAPath)
           (concat_camera env jobId 4 uploadsBDir (order_b ord) concatBPath) init_locals = (es2, l2, None) \<longrightarrow>
         completedSteps l2 = 2
         \<and> completedSteps (fst (snd (pad_shorter env l2))) = 2
         \<and> job_writes jobId (fst (pad_shorter env l2)) = [])
   \<and> (seq (seq (concat_camera env jobId 4 uploadsADir (order_a ord) concatAPath)
                (concat_camera env jobId 4 uploadsBDir (order_b ord) concatBPath))
           (pad_shorter env) init_locals = (es3, l3, None)
        \<and> combine_step env jobId 4 l3 = (esC, lC, rC) \<longrightarrow>
         completedSteps l3 = 2
         \<and> esC = Run (combine_command env (finalConcatAPath l3) (finalConcatBPath l3) ''output/combined.mp4'' default_config)
              # concat (map (on_progress jobId 2 4)
                   (forwarded (events (run env (combine_command env (finalConcatAPath l3) (finalConcatBPath l3)
                      ''output/combined.mp4'' default_config)))))
              @ (if rC = None
                 then [JobSet jobId \<lparr>progress = Num 75, status = Processing, error = None\<rparr>] else [])
         \<and> (rC = None \<longrightarrow>
               completedSteps lC = 3
               \<and> (compress_step env jobId cfg 4 lC = (esK, lK, rK) \<longrightarrow>
                    esK = Run (compress_command env ''output/combined.mp4'' ''output/final.mp4'' cfg)
                      # concat (map (on_progress jobId 3 4)
                           (forwarded (events (run env (compress_command env ''output/combined.mp4''
                              ''output/final.mp4'' cfg)))))
                      @ (if rK = None
                         then [JobSet jobId \<lparr>progress = Num 100, status = Done, error = None\<rparr>] else [])
                    \<and> (rK = None \<longrightarrow> completedSteps lK = 4))))"
proof -
  let ?A = "concat_camera env jobId 4 uploadsADir (order_a ord) concatAPath"
  let ?B = "concat_camera env jobId 4 uploadsBDir (order_b ord) concatBPath"
  have 1: "processVideosConcatenateFirst env jobId ord cfg =
      catch_failure jobId 4 (processVideosConcatenateFirst_try env jobId ord cfg 4 init_locals)"
    by (simp add: processVideosConcatenateFirst_def)
  have 2: "processVideosConcatenateFirst_try env jobId ord cfg 4 =
      seq (seq (seq ?A ?B) (pad_shorter env)) (seq (combine_step env jobId 4) (compress_step env jobId cfg 4))"
    by (rule ext) (simp add: processVideosConcatenateFirst_try_def seq_assoc)
  have two: "completedSteps l = 2" if "seq ?A ?B init_locals = (es, l, None)" for es l
  proof -
    from that obtain esA lA esB where
      "?A init_locals = (esA, lA, None)" "?B lA = (esB, l, None)"
      by (blast dest: seq_success)
    then show ?thesis
      by (auto dest!: concat_camera_effects simp: init_locals_def)
  qed
  have pad: "completedSteps (fst (snd (pad_shorter env l))) = completedSteps l
      \<and> job_writes jobId (fst (pad_shorter env l)) = []" for l
    using pad_shorter_silent[of env l "fst (pad_shorter env l)" "fst (snd (pad_shorter env l))"
        "snd (snd (pad_shorter env l))" jobId]
    by simp
  have 3: "completedSteps l2 = 2 \<and> completedSteps (fst (snd (pad_shorter env l2))) = 2
      \<and> job_writes jobId (fst (pad_shorter env l2)) = []"
    if "seq ?A ?B init_locals = (es2, l2, None)"
    using two[OF that] pad[of l2] by simp
  have three: "completedSteps l3 = 2" if "seq (seq ?A ?B) (pad_shorter env) init_locals = (es3, l3, None)"
  proof -
    from that obtain es l es' where
      ab: "seq ?A ?B init_locals = (es, l, None)" and p: "pad_shorter env l = (es', l3, None)"
      by (blast dest: seq_success)
    from pad_shorter_silent[OF p] two[OF ab] show ?thesis by simp
  qed
  have sd: "step_done jobId 3 4 = JobSet jobId \<lparr>progress = Num 75, status = Processing, error = None\<rparr>"
    by (simp add: step_done_def steps_progress_def)
  have jd: "job_done jobId = JobSet jobId \<lparr>progress = Num 100, status = Done, error = None\<rparr>"
    by (simp add: job_done_def)
  have 4: "completedSteps l3 = 2
         \<and> esC = Run (combine_command env (finalConcatAPath l3) (finalConcatBPath l3) ''output/combined.mp4'' default_config)
              # concat (map (on_progress jobId 2 4)
                   (forwarded (events (run env (combine_command env (finalConcatAPath l3) (finalConcatBPath l3)
                      ''output/combined.mp4'' default_config)))))
              @ (if rC = None
                 then [JobSet jobId \<lparr>progress = Num 75, status = Processing, error = None\<rparr>] else [])
         \<and> (rC = None \<longrightarrow>
               completedSteps lC = 3
               \<and> (compress_step env jobId cfg 4 lC = (esK, lK, rK) \<longrightarrow>
                    esK = Run (compress_command env ''output/combined.mp4'' ''output/final.mp4'' cfg)
                      # concat (map (on_progress jobId 3 4)
                           (forwarded (events (run env (compress_command env ''output/combined.mp4''
                              ''output/final.mp4'' cfg)))))
                      @ (if rK = None
                         then [JobSet jobId \<lparr>progress = Num 100, status = Done, error = None\<rparr>] else [])
                    \<and> (rK = None \<longrightarrow> completedSteps lK = 4)))"
    if pre: "seq (seq ?A ?B) (pad_shorter env) init_locals = (es3, l3, None)"
      and comb: "combine_step env jobId 4 l3 = (esC, lC, rC)"
  proof -
    note c3 = three[OF pre]
    from combine_step_effects[OF comb] c3
    have C: "esC = Run (combine_command env (finalConcatAPath l3) (finalConcatBPath l3) ''output/combined.mp4'' default_config)
              # concat (map (on_progress jobId 2 4)
                   (forwarded (events (run env (combine_command env (finalConcatAPath l3) (finalConcatBPath l3)
                      ''output/combined.mp4'' default_config)))))
              @ (if rC = None
                 then [JobSet jobId \<lparr>progress = Num 75, status = Processing, error = None\<rparr>] else [])"
      and cC: "rC = None \<longrightarrow> completedSteps lC = 3"
      by (simp_all add: sd)
    have K: "esK = Run (compress_command env ''output/combined.mp4'' ''output/final.mp4'' cfg)
                      # concat (map (on_progress jobId 3 4)
                           (forwarded (events (run env (compress_command env ''output/combined.mp4''
                              ''output/final.mp4'' cfg)))))
                      @ (if rK = None
                         then [JobSet jobId \<lparr>progress = Num 100, status = Done, error = None\<rparr>] else [])
                    \<and> (rK = None \<longrightarrow> completedSteps lK = 4)"
      if "rC = None" "compress_step env jobId cfg 4 lC = (esK, lK, rK)"
      using compress_step_effects[OF that(2)] cC that(1) by (simp add: jd)
    show ?thesis
      using c3 C cC K by blast
  qed
  show ?thesis
    using 1 2 3 4 by blast
qed

theorem concat_first_steps_witness:
  "commands (fst (pad_shorter (demo_env all_succeed (probe_durations 70 60))
      (fst (snd (seq (concat_camera (demo_env all_succeed (probe_durations 70 60)) ''job-1'' 4 uploadsADir
                        (order_a two_and_three) concatAPath)
                     (concat_camera (demo_env all_succeed (probe_durations 70 60)) ''job-1'' 4 uploadsBDir
                        (order_b two_and_three) concatBPath) init_locals))))) \<noteq> []
   \<and> completedSteps (fst (snd (pad_shorter (demo_env all_succeed (probe_durations 70 60))
      (fst (snd (seq (concat_camera (demo_env all_succeed (probe_durations 70 60)) ''job-1'' 4 uploadsADir
                        (order_a two_and_three) concatAPath)
                     (concat_camera (demo_env all_succeed (probe_durations 70 60)) ''job-1'' 4 uploadsBDir
                        (order_b two_and_three) concatBPath) init_locals)))))) = 2
   \<and> completedSteps (fst (snd (processVideosConcatenateFirst_try
        (demo_env all_succeed (probe_durations 70 60)) ''job-1'' two_and_three concat_first 4 init_locals))) = 4
   \<and> job_writes ''job-1'' (fst (processVideosConcatenateFirst
        (demo_env all_succeed (probe_durations 70 60)) ''job-1'' two_and_three concat_first)) =
      [\<lparr>progress = Num 13, status = Processing, error = None\<rparr>,
       \<lparr>progress = Num 25, status = Processing, error = None\<rparr>,
       \<lparr>progress = Num 38, status = Processing, error = None\<rparr>,
       \<lparr>progress = Num 50, status = Processing, error = None\<rparr>,
       \<lparr>progress = Num 63, status = Processing, error = None\<rparr>,
       \<lparr>progress = Num 75, status = Processing, error = None\<rparr>,
       \<lparr>progress = Num 88, status = Processing, error = None\<rparr>,
       \<lparr>progress = Num 100, status = Done, error = None\<rparr>]"
proof -
  let ?E = "demo_env all_succeed (probe_durations 70 60)"
  let ?A = "concat_camera ?E ''job-1'' 4 uploadsADir (order_a two_and_three) concatAPath"
  let ?B = "concat_camera ?E ''job-1'' 4 uploadsBDir (order_b two_and_three) concatBPath"
  let ?r2 = "seq ?A ?B init_locals"
  let ?r3 = "seq (seq ?A ?B) (pad_shorter ?E) init_locals"
  let ?rC = "combine_step ?E ''job-1'' 4 (fst (snd ?r3))"
  let ?rK = "compress_step ?E ''job-1'' concat_first 4 (fst (snd ?rC))"
  have "snd (snd ?r2) = None" "snd (snd ?r3) = None" "snd (snd ?rC) = None" "snd (snd ?rK) = None"
    by code_simp+
  then have ok: "?r2 = (fst ?r2, fst (snd ?r2), None)" "?r3 = (fst ?r3, fst (snd ?r3), None)"
    "?rC = (fst ?rC, fst (snd ?rC), None)" "?rK = (fst ?rK, fst (snd ?rK), None)"
    by (metis prod.collapse)+
  note steps = concat_first_steps [of ?E "''job-1''" two_and_three concat_first
      "fst ?r2" "fst (snd ?r2)" "fst ?r3" "fst (snd ?r3)" "fst ?rC" "fst (snd ?rC)" None
      "fst ?rK" "fst (snd ?rK)" None]
  have padded: "commands (fst (pad_shorter ?E (fst (snd ?r2)))) \<noteq> []"
    by code_simp
  have 2: "completedSteps (fst (snd (pad_shorter ?E (fst (snd ?r2))))) = 2"
    using steps ok(1) by blast
  have K: "completedSteps (fst (snd ?rK)) = 4"
    using steps ok(2,3,4) by blast
  have "processVideosConcatenateFirst_try ?E ''job-1'' two_and_three concat_first 4 init_locals =
      seq (seq (seq ?A ?B) (pad_shorter ?E))
        (seq (combine_step ?E ''job-1'' 4) (compress_step ?E ''job-1'' concat_first 4)) init_locals"
    using steps by simp
  also have "\<dots> = (fst ?r3 @ fst ?rC @ fst ?rK, fst (snd ?rK), None)"
  proof -
    have "seq (combine_step ?E ''job-1'' 4) (compress_step ?E ''job-1'' concat_first 4) (fst (snd ?r3)) =
        (fst ?rC @ fst ?rK, fst (snd ?rK), None)"
      using ok(3) ok(4)
      by (rule seq_ok[of "combine_step ?E ''job-1'' 4" "fst (snd ?r3)" "fst ?rC" "fst (snd ?rC)"
            "compress_step ?E ''job-1'' concat_first 4" "fst ?rK" "fst (snd ?rK)" None])
    with ok(2) show ?thesis
      by (rule seq_ok[of "seq (seq ?A ?B) (pad_shorter ?E)" init_locals "fst ?r3" "fst (snd ?r3)"
            "seq (combine_step ?E ''job-1'' 4) (compress_step ?E ''job-1'' concat_first 4)"
            "fst ?rC @ fst ?rK" "fst (snd ?rK)" None])
  qed
  finally have 4: "completedSteps (fst (snd (processVideosConcatenateFirst_try ?E ''job-1'' two_and_three
      concat_first 4 init_locals))) = 4"
    using K by simp
  have w: "job_writes ''job-1'' (fst (processVideosConcatenateFirst ?E ''job-1'' two_and_three concat_first)) =
      [\<lparr>progress = Num 13, status = Processing, error = None\<rparr>,
       \<lparr>progress = Num 25, status = Processing, error = None\<rparr>,
       \<lparr>progress = Num 38, status = Processing, error = None\<rparr>,
       \<lparr>progress = Num 50, status = Processing, error = None\<rparr>,
       \<lparr>progress = Num 63, status = Processing, error = None\<rparr>,
       \<lparr>progress = Num 75, status = Processing, error = None\<rparr>,
       \<lparr>progress = Num 88, status = Processing, error = None\<rparr>,
       \<lparr>progress = Num 100, status = Done, error = None\<rparr>]"
    by code_simp
  show ?thesis
    using padded 2 4 w by blast
qed

section \<open>Properties of the recorded progress\<close>

lemma finite_values_Some: "finite_values ps = Some rs \<longleftrightarrow> ps = map Num rs"
proof (induction ps arbitrary: rs)
  case Nil
  then show ?case by auto
next
  case (Cons p ps)
  then show ?case by (cases p) (auto simp: map_eq_Cons_conv)
qed

lemma finite_values_map [simp]: "finite_values (map Num rs) = Some rs"
  by (simp add: finite_values_Some)

lemma map_Num_eq [simp]: "map Num xs = map Num ys \<longleftrightarrow> xs = ys"
  by (simp add: inj_map_eq_map inj_on_def)










lemma live_progress_append [simp]:
  "live_progress jobId (es @ es') = live_progress jobId es @ live_progress jobId es'"
  by (simp add: live_progress_def)

lemma live_progress_simps [simp]:
  "live_progress jobId [] = []"
  "live_progress jobId (Run cmd # es) = live_progress jobId es"
  "live_progress jobId (Respond n b # es) = live_progress jobId es"
  "live_progress jobId (JobSet jobId j # es) =
     (if status j \<noteq> Error then progress j # live_progress jobId es else live_progress jobId es)"
  by (simp_all add: live_progress_def)

lemma rising_Nil [simp]: "rising jobId lo hi []"
  by (simp add: rising_def)

lemma rising_Run [simp]: "rising jobId lo hi (Run cmd # es) = rising jobId lo hi es"
  by (simp add: rising_def)


lemma rising_widen:
  "rising jobId lo hi es \<Longrightarrow> lo' \<le> lo \<Longrightarrow> hi \<le> hi' \<Longrightarrow> rising jobId lo' hi' es"
  unfolding rising_def by fastforce































end
